theory Spec2Isabelle
  imports Complex_Main
begin

section \<open>Exceptions\<close>

text \<open>
  The application's own exception classes (\<^verbatim>\<open>app.py\<close>, lines 10-24) and the library
  exceptions that the modelled code paths can meet. All of them derive from Python's
  \<^verbatim>\<open>Exception\<close>, so a bare \<^verbatim>\<open>except Exception\<close> catches every value of this type.
\<close>

datatype exn =
    VideoUploadError string
  | ThumbnailGenerationError string
  | AuthenticationError string
  | UnboundLocalError string
  | IndexError string
  | TypeError string
  | AttributeError string
  | OSError string
  | NotFound
  | BadRequestKeyError string
  | IntegrityError string
  | LibraryError string

text \<open>\<^verbatim>\<open>str(e)\<close>. \<^verbatim>\<open>UnboundLocalError\<close> carries the name of the local variable.\<close>

fun str_exn :: "exn \<Rightarrow> string" where
  "str_exn (VideoUploadError m) = m"
| "str_exn (ThumbnailGenerationError m) = m"
| "str_exn (AuthenticationError m) = m"
| "str_exn (UnboundLocalError v) =
     ''local variable '' @ [CHR 0x27] @ v @ [CHR 0x27] @ '' referenced before assignment''"
| "str_exn (IndexError m) = m"
| "str_exn (TypeError m) = m"
| "str_exn (AttributeError m) = m"
| "str_exn (OSError m) = m"
| "str_exn NotFound = ''404 Not Found: The requested URL was not found on the server. If you entered the URL manually please check your spelling and try again.''"
| "str_exn (BadRequestKeyError k) = ''400 Bad Request: The browser (or proxy) sent a request that this server could not understand.''"
| "str_exn (IntegrityError m) = m"
| "str_exn (LibraryError m) = m"

definition is_VideoUploadError :: "exn \<Rightarrow> bool" where
  "is_VideoUploadError e = (case e of VideoUploadError _ \<Rightarrow> True | _ \<Rightarrow> False)"

section \<open>Strings, paths and timestamps\<close>

text \<open>
  Strings are lists of characters. \<^verbatim>\<open>str.lower\<close> is modelled on the ASCII letters,
  where it maps \<^verbatim>\<open>A..Z\<close> to \<^verbatim>\<open>a..z\<close> and leaves every other character alone.
\<close>

definition upper_letters :: string where
  "upper_letters = ''ABCDEFGHIJKLMNOPQRSTUVWXYZ''"

definition lower_letters :: string where
  "lower_letters = ''abcdefghijklmnopqrstuvwxyz''"

definition lower_char :: "char \<Rightarrow> char" where
  "lower_char c = (case map_of (zip upper_letters lower_letters) c of Some d \<Rightarrow> d | None \<Rightarrow> c)"

definition lower :: "string \<Rightarrow> string" where
  "lower s = map lower_char s"

text \<open>\<^verbatim>\<open>s.rfind(c)\<close>: the index of the last occurrence of \<open>c\<close>, if there is one.\<close>

fun rfind :: "char \<Rightarrow> string \<Rightarrow> nat option" where
  "rfind c [] = None"
| "rfind c (x # xs) =
     (case rfind c xs of
        Some i \<Rightarrow> Some (Suc i)
      | None \<Rightarrow> if x = c then Some 0 else None)"

text \<open>\<^verbatim>\<open>s.rsplit(c, 1)\<close>: one split, at the last occurrence of the separator.\<close>

definition rsplit1 :: "char \<Rightarrow> string \<Rightarrow> string list" where
  "rsplit1 c s = (case rfind c s of None \<Rightarrow> [s] | Some i \<Rightarrow> [take i s, drop (Suc i) s])"

text \<open>\<^verbatim>\<open>xs[i]\<close> for a non-negative index: out of range raises \<^verbatim>\<open>IndexError\<close>.\<close>

definition getitem :: "'a list \<Rightarrow> nat \<Rightarrow> exn + 'a" where
  "getitem xs i =
     (if i < length xs then Inr (xs ! i) else Inl (IndexError ''list index out of range''))"

text \<open>\<^verbatim>\<open>os.path.join(a, b)\<close> on a POSIX system.\<close>

definition path_join :: "string \<Rightarrow> string \<Rightarrow> string" where
  "path_join a b =
     (if b \<noteq> [] \<and> hd b = CHR ''/'' then b
      else if a = [] \<or> last a = CHR ''/'' then a @ b
      else a @ ''/'' @ b)"

text \<open>
  The words of the specification, "the substring after the last \<open>c\<close>" and the part of the
  string before that last \<open>c\<close>, written independently of \<open>rsplit1\<close>.
\<close>

definition after_last :: "char \<Rightarrow> string \<Rightarrow> string" where
  "after_last c s = rev (takeWhile (\<lambda>x. x \<noteq> c) (rev s))"

definition before_last :: "char \<Rightarrow> string \<Rightarrow> string" where
  "before_last c s = rev (tl (dropWhile (\<lambda>x. x \<noteq> c) (rev s)))"

text \<open>
  A \<^verbatim>\<open>datetime\<close> value and \<^verbatim>\<open>strftime('%Y%m%d_%H%M%S')\<close>. The year of
  \<^verbatim>\<open>datetime.utcnow()\<close> has four digits.
\<close>

record datetime =
  year :: nat
  month :: nat
  day :: nat
  hour :: nat
  minute :: nat
  second :: nat

definition digit :: "nat \<Rightarrow> char" where
  "digit n = ''0123456789'' ! (n mod 10)"

definition pad2 :: "nat \<Rightarrow> string" where
  "pad2 n = [digit (n div 10), digit n]"

definition pad4 :: "nat \<Rightarrow> string" where
  "pad4 n = [digit (n div 1000), digit (n div 100), digit (n div 10), digit n]"

definition strftime :: "datetime \<Rightarrow> string" where
  "strftime t =
     pad4 (year t) @ pad2 (month t) @ pad2 (day t) @ ''_'' @
     pad2 (hour t) @ pad2 (minute t) @ pad2 (second t)"

section \<open>Records, configuration and the world\<close>

text \<open>The two models of \<^verbatim>\<open>app.py\<close>, lines 144-155. \<^verbatim>\<open>thumbnail_filename\<close> is nullable.\<close>

record user =
  user_id :: nat
  username :: string
  password_hash :: string
  is_superuser :: bool

record video =
  video_id :: nat
  title :: string
  video_filename :: string
  thumbnail_filename :: "string option"
  upload_date :: datetime

text \<open>A \<^verbatim>\<open>werkzeug\<close> \<^verbatim>\<open>FileStorage\<close>: the declared filename and the uploaded bytes.\<close>

record file_storage =
  filename :: string
  stream :: string

text \<open>A \<^verbatim>\<open>moviepy\<close> clip, as far as the code reads it.\<close>

record clip =
  clip_path :: string
  duration :: real

definition UPLOAD_FOLDER :: string where
  "UPLOAD_FOLDER = ''static/uploads''"

definition THUMBNAIL_FOLDER :: string where
  "THUMBNAIL_FOLDER = ''static/thumbnails''"

definition ALLOWED_EXTENSIONS :: "string set" where
  "ALLOWED_EXTENSIONS = {''mp4'', ''avi'', ''mov'', ''wmv'', ''flv'', ''mkv''}"

text \<open>
  What the code cannot decide by itself: the two decoders, the operating system's refusals
  to write or to remove a path, and the password hashing of \<^verbatim>\<open>werkzeug.security\<close>.
  Each is a parameter; a decoder sees the path it is given and the stored files. The hash
  comparison may raise, and the password it is given may be \<^verbatim>\<open>None\<close>.
\<close>

record env =
  clip_open :: "string \<Rightarrow> (string \<rightharpoonup> string) \<Rightarrow> exn + real"
  clip_frame :: "string \<Rightarrow> (string \<rightharpoonup> string) \<Rightarrow> real \<Rightarrow> exn + string"
  reader_open :: "string \<Rightarrow> (string \<rightharpoonup> string) \<Rightarrow> exn + unit"
  reader_frame :: "string \<Rightarrow> (string \<rightharpoonup> string) \<Rightarrow> nat \<Rightarrow> exn + string"
  write_error :: "string \<Rightarrow> exn option"
  remove_error :: "string \<Rightarrow> exn option"
  generate_password_hash :: "string \<Rightarrow> string"
  check_password_hash :: "string \<Rightarrow> string option \<Rightarrow> exn + bool"

text \<open>The calls to the decoders and to the file system that a run makes, in order.\<close>

datatype call =
    Call_VideoFileClip string
  | Call_save_frame string real
  | Call_clip_close
  | Call_get_reader string
  | Call_get_data nat
  | Call_imwrite string
  | Call_reader_close
  | Call_file_save string
  | Call_remove string

record world =
  files :: "string \<rightharpoonup> string"
  users :: "user list"
  videos :: "video list"
  flashes :: "string list"
  calls :: "call list"

section \<open>Computations that change the world and may raise\<close>

type_synonym 'a comp = "world \<Rightarrow> (exn + 'a) \<times> world"

definition return :: "'a \<Rightarrow> 'a comp" where
  "return v = (\<lambda>w. (Inr v, w))"

definition raise :: "exn \<Rightarrow> 'a comp" where
  "raise e = (\<lambda>w. (Inl e, w))"

definition bind :: "'a comp \<Rightarrow> ('a \<Rightarrow> 'b comp) \<Rightarrow> 'b comp" where
  "bind m f = (\<lambda>w. case m w of (Inl e, w') \<Rightarrow> (Inl e, w') | (Inr v, w') \<Rightarrow> f v w')"

text \<open>\<^verbatim>\<open>try: m except Exception as e: h e\<close>\<close>

definition try_except :: "'a comp \<Rightarrow> (exn \<Rightarrow> 'a comp) \<Rightarrow> 'a comp" where
  "try_except m h = (\<lambda>w. case m w of (Inl e, w') \<Rightarrow> h e w' | (Inr v, w') \<Rightarrow> (Inr v, w'))"

text \<open>\<^verbatim>\<open>try: m except C as e: h e\<close>, for the exception class recognised by \<open>c\<close>.\<close>

definition try_except_class :: "(exn \<Rightarrow> bool) \<Rightarrow> 'a comp \<Rightarrow> (exn \<Rightarrow> 'a comp) \<Rightarrow> 'a comp" where
  "try_except_class c m h =
     (\<lambda>w. case m w of
        (Inl e, w') \<Rightarrow> if c e then h e w' else (Inl e, w')
      | (Inr v, w') \<Rightarrow> (Inr v, w'))"

definition lift :: "exn + 'a \<Rightarrow> 'a comp" where
  "lift r = (\<lambda>w. (r, w))"

definition log :: "call \<Rightarrow> unit comp" where
  "log c = (\<lambda>w. (Inr (), w\<lparr>calls := calls w @ [c]\<rparr>))"

subsection \<open>The file system\<close>

definition write_file :: "env \<Rightarrow> string \<Rightarrow> string \<Rightarrow> unit comp" where
  "write_file env p data =
     (\<lambda>w. case write_error env p of
        Some e \<Rightarrow> (Inl e, w)
      | None \<Rightarrow> (Inr (), w\<lparr>files := (files w)(p \<mapsto> data)\<rparr>))"

text \<open>\<^verbatim>\<open>video_file.save(path)\<close>\<close>

definition file_save :: "env \<Rightarrow> file_storage \<Rightarrow> string \<Rightarrow> unit comp" where
  "file_save env f p = bind (log (Call_file_save p)) (\<lambda>_. write_file env p (stream f))"

text \<open>\<^verbatim>\<open>os.path.exists(path)\<close>\<close>

definition path_exists :: "string \<Rightarrow> bool comp" where
  "path_exists p = (\<lambda>w. (Inr (p \<in> dom (files w)), w))"

text \<open>\<^verbatim>\<open>os.remove(path)\<close>\<close>

definition os_remove :: "env \<Rightarrow> string \<Rightarrow> unit comp" where
  "os_remove env p =
     bind (log (Call_remove p)) (\<lambda>_ w.
       if p \<notin> dom (files w) then (Inl (OSError ''No such file or directory''), w)
       else case remove_error env p of
              Some e \<Rightarrow> (Inl e, w)
            | None \<Rightarrow> (Inr (), w\<lparr>files := (files w)(p := None)\<rparr>))"

subsection \<open>The decoders\<close>

text \<open>\<^verbatim>\<open>VideoFileClip(path)\<close>, \<^verbatim>\<open>video.save_frame(out, t=t)\<close>, \<^verbatim>\<open>video.close()\<close>\<close>

definition VideoFileClip :: "env \<Rightarrow> string \<Rightarrow> clip comp" where
  "VideoFileClip env p =
     bind (log (Call_VideoFileClip p)) (\<lambda>_ w.
       case clip_open env p (files w) of
         Inl e \<Rightarrow> (Inl e, w)
       | Inr d \<Rightarrow> (Inr \<lparr>clip_path = p, duration = d\<rparr>, w))"

definition save_frame :: "env \<Rightarrow> clip \<Rightarrow> string \<Rightarrow> real \<Rightarrow> unit comp" where
  "save_frame env v out t =
     bind (log (Call_save_frame out t)) (\<lambda>_ w.
       case clip_frame env (clip_path v) (files w) t of
         Inl e \<Rightarrow> (Inl e, w)
       | Inr img \<Rightarrow> write_file env out img w)"

definition clip_close :: "clip \<Rightarrow> unit comp" where
  "clip_close v = log Call_clip_close"

text \<open>
  \<^verbatim>\<open>imageio.get_reader(path)\<close>, \<^verbatim>\<open>reader.get_data(i)\<close>,
  \<^verbatim>\<open>imageio.imwrite(out, frame)\<close>, \<^verbatim>\<open>reader.close()\<close>. The reader is its path.
\<close>

definition get_reader :: "env \<Rightarrow> string \<Rightarrow> string comp" where
  "get_reader env p =
     bind (log (Call_get_reader p)) (\<lambda>_ w.
       case reader_open env p (files w) of
         Inl e \<Rightarrow> (Inl e, w)
       | Inr _ \<Rightarrow> (Inr p, w))"

definition get_data :: "env \<Rightarrow> string \<Rightarrow> nat \<Rightarrow> string comp" where
  "get_data env reader i =
     bind (log (Call_get_data i)) (\<lambda>_ w. (reader_frame env reader (files w) i, w))"

definition imwrite :: "env \<Rightarrow> string \<Rightarrow> string \<Rightarrow> unit comp" where
  "imwrite env out frame = bind (log (Call_imwrite out)) (\<lambda>_. write_file env out frame)"

definition reader_close :: "string \<Rightarrow> unit comp" where
  "reader_close reader = log Call_reader_close"

subsection \<open>The record store and the flash messages\<close>

text \<open>The next primary key of a table whose keys are \<open>ids\<close>.\<close>

definition next_id :: "nat list \<Rightarrow> nat" where
  "next_id ids = fold max ids 0 + 1"

text \<open>\<^verbatim>\<open>User.query.filter_by(username=name).first()\<close>\<close>

definition query_user :: "string \<Rightarrow> user option comp" where
  "query_user name = (\<lambda>w. (Inr (find (\<lambda>u. username u = name) (users w)), w))"

text \<open>
  \<^verbatim>\<open>db.session.add(user); db.session.commit()\<close> for a new user: the column
  \<^verbatim>\<open>username\<close> is unique, and the store assigns the key.
\<close>

definition add_user :: "string \<Rightarrow> string \<Rightarrow> user comp" where
  "add_user name pwhash =
     (\<lambda>w. if name \<in> set (map username (users w))
           then (Inl (IntegrityError ''UNIQUE constraint failed: user.username''), w)
           else let u = \<lparr>user_id = next_id (map user_id (users w)), username = name,
                          password_hash = pwhash, is_superuser = False\<rparr>
                in (Inr u, w\<lparr>users := users w @ [u]\<rparr>))"

text \<open>\<^verbatim>\<open>db.session.rollback()\<close>: a failed commit has stored nothing.\<close>

definition rollback :: "unit comp" where
  "rollback = return ()"

text \<open>
  \<^verbatim>\<open>db.session.add(new_video); db.session.commit()\<close>: the column \<^verbatim>\<open>title\<close> is not
  nullable, and the form may hold no title.
\<close>

definition add_video :: "string option \<Rightarrow> string \<Rightarrow> string \<Rightarrow> datetime \<Rightarrow> video comp" where
  "add_video title_opt fname tname now =
     (\<lambda>w. case title_opt of
        None \<Rightarrow> (Inl (IntegrityError ''NOT NULL constraint failed: video.title''), w)
      | Some t \<Rightarrow>
          let v = \<lparr>video_id = next_id (map video_id (videos w)), title = t,
                   video_filename = fname, thumbnail_filename = Some tname,
                   upload_date = now\<rparr>
          in (Inr v, w\<lparr>videos := videos w @ [v]\<rparr>))"

text \<open>\<^verbatim>\<open>Video.query.get_or_404(video_id)\<close>\<close>

definition get_or_404 :: "nat \<Rightarrow> video comp" where
  "get_or_404 i =
     (\<lambda>w. case find (\<lambda>v. video_id v = i) (videos w) of
        None \<Rightarrow> (Inl NotFound, w)
      | Some v \<Rightarrow> (Inr v, w))"

text \<open>\<^verbatim>\<open>db.session.delete(video); db.session.commit()\<close>\<close>

definition delete_video_record :: "video \<Rightarrow> unit comp" where
  "delete_video_record v =
     (\<lambda>w. (Inr (), w\<lparr>videos := filter (\<lambda>x. video_id x \<noteq> video_id v) (videos w)\<rparr>))"

definition flash :: "string \<Rightarrow> unit comp" where
  "flash m = (\<lambda>w. (Inr (), w\<lparr>flashes := flashes w @ [m]\<rparr>))"

section \<open>VideoService\<close>

text \<open>
  \<^verbatim>\<open>generate_thumbnail\<close> (lines 35-54). The body of the inner \<^verbatim>\<open>try\<close> and the body of
  its handler are named; the two \<^verbatim>\<open>print\<close> calls write to the console only.
\<close>

definition thumbnail_with_moviepy :: "env \<Rightarrow> string \<Rightarrow> string \<Rightarrow> bool comp" where
  "thumbnail_with_moviepy env video_path thumbnail_path =
     bind (VideoFileClip env video_path) (\<lambda>video.
     let time = min 1 (duration video) in
     bind (save_frame env video thumbnail_path time) (\<lambda>_.
     bind (clip_close video) (\<lambda>_.
     return True)))"

definition thumbnail_with_imageio :: "env \<Rightarrow> string \<Rightarrow> string \<Rightarrow> bool comp" where
  "thumbnail_with_imageio env video_path thumbnail_path =
     bind (get_reader env video_path) (\<lambda>reader.
     bind (get_data env reader 0) (\<lambda>first_frame.
     bind (imwrite env thumbnail_path first_frame) (\<lambda>_.
     bind (reader_close reader) (\<lambda>_.
     return True))))"

definition generate_thumbnail :: "env \<Rightarrow> string \<Rightarrow> string \<Rightarrow> bool comp" where
  "generate_thumbnail env video_path thumbnail_path =
     try_except
       (try_except
          (thumbnail_with_moviepy env video_path thumbnail_path)
          (\<lambda>e. thumbnail_with_imageio env video_path thumbnail_path))
       (\<lambda>e. raise (ThumbnailGenerationError (''Failed to generate thumbnail: '' @ str_exn e)))"

text \<open>\<^verbatim>\<open>_is_allowed_file\<close> (lines 82-85); \<^verbatim>\<open>and\<close> evaluates its right side only when needed.\<close>

definition is_allowed_file :: "string \<Rightarrow> exn + bool" where
  "is_allowed_file fname =
     (if CHR ''.'' \<in> set fname
      then (case getitem (rsplit1 CHR ''.'' fname) 1 of
              Inl e \<Rightarrow> Inl e
            | Inr ext \<Rightarrow> Inr (lower ext \<in> ALLOWED_EXTENSIONS))
      else Inr False)"

text \<open>
  \<^verbatim>\<open>save_video\<close> (lines 56-80). The handler reads the local \<^verbatim>\<open>video_path\<close>, which is
  bound at line 66: an exception raised before that line reaches the handler with the
  variable unbound. An exception raised by the handler itself leaves the function.
\<close>

definition save_video_except :: "env \<Rightarrow> string option \<Rightarrow> exn \<Rightarrow> 'a comp" where
  "save_video_except env video_path e =
     (case video_path of
        None \<Rightarrow> raise (UnboundLocalError ''video_path'')
      | Some p \<Rightarrow>
          bind (path_exists p) (\<lambda>found.
          bind (if found then os_remove env p else return ()) (\<lambda>_.
          raise (VideoUploadError (''Failed to upload video: '' @ str_exn e)))))"

definition save_video_validate :: "file_storage option \<Rightarrow> file_storage comp" where
  "save_video_validate video_file =
     (case video_file of
        None \<Rightarrow> raise (VideoUploadError ''No video file selected'')
      | Some f \<Rightarrow>
          if filename f = [] then raise (VideoUploadError ''No video file selected'')
          else bind (lift (is_allowed_file (filename f))) (\<lambda>allowed.
               if \<not> allowed
               then raise (VideoUploadError
                      ''Invalid file type. Allowed formats: MP4, AVI, MOV, WMV, FLV, MKV'')
               else return f))"

definition save_video ::
  "env \<Rightarrow> datetime \<Rightarrow> file_storage option \<Rightarrow> string option \<Rightarrow> (string \<times> string) comp" where
  "save_video env now video_file title_opt =
     bind (try_except (save_video_validate video_file) (save_video_except env None)) (\<lambda>f.
     let fname = strftime now @ ''_'' @ filename f;
         video_path = path_join UPLOAD_FOLDER fname
     in try_except
          (bind (file_save env f video_path) (\<lambda>_.
           bind (lift (getitem (rsplit1 CHR ''.'' fname) 0)) (\<lambda>base.
           let tname = ''thumb_'' @ base @ ''.jpg'';
               thumbnail_path = path_join THUMBNAIL_FOLDER tname
           in bind (generate_thumbnail env video_path thumbnail_path) (\<lambda>ok.
              if ok then return (fname, tname)
              else raise (ThumbnailGenerationError ''Failed to generate thumbnail'')))))
          (save_video_except env (Some video_path)))"

section \<open>UserService\<close>

text \<open>\<^verbatim>\<open>create_user\<close> (lines 93-111)\<close>

definition create_user :: "env \<Rightarrow> string \<Rightarrow> string \<Rightarrow> user comp" where
  "create_user env name password =
     try_except
       (if length password < 8
        then raise (AuthenticationError ''Password must be at least 8 characters long'')
        else bind (query_user name) (\<lambda>existing.
             case existing of
               Some _ \<Rightarrow> raise (AuthenticationError ''Username already exists'')
             | None \<Rightarrow> add_user name (generate_password_hash env password)))
       (\<lambda>e. bind rollback (\<lambda>_.
             raise (AuthenticationError (''Failed to create user: '' @ str_exn e))))"

text \<open>
  \<^verbatim>\<open>authenticate_user\<close> (lines 113-121). \<^verbatim>\<open>login\<close> passes
  \<^verbatim>\<open>request.form.get('password')\<close> (line 200), which is \<^verbatim>\<open>None\<close> when the form has
  no such field. \<^verbatim>\<open>or\<close> evaluates the comparison only when the user exists, and an
  exception of the comparison reaches the handler like any other.
\<close>

definition authenticate_user :: "env \<Rightarrow> string \<Rightarrow> string option \<Rightarrow> user comp" where
  "authenticate_user env name password =
     try_except
       (bind (query_user name) (\<lambda>found.
        case found of
          None \<Rightarrow> raise (AuthenticationError ''Invalid username or password'')
        | Some u \<Rightarrow>
            bind (lift (check_password_hash env (password_hash u) password)) (\<lambda>matches.
            if \<not> matches
            then raise (AuthenticationError ''Invalid username or password'')
            else return u)))
       (\<lambda>e. raise (AuthenticationError (''Authentication failed: '' @ str_exn e)))"

section \<open>Request handlers\<close>

text \<open>
  A request as the two handlers read it, and their responses. The handlers are modelled
  behind \<^verbatim>\<open>login_required\<close>, for a logged-in \<^verbatim>\<open>current_user\<close>; a result \<open>Inl e\<close> is an
  exception that leaves the handler. \<^verbatim>\<open>url_for\<close> is the name of the endpoint.
\<close>

record request =
  http_method :: string
  url :: string
  request_files :: "string \<rightharpoonup> file_storage"
  form :: "string \<rightharpoonup> string"

datatype response = Redirect string | Render string

text \<open>\<^verbatim>\<open>request.files['video']\<close>\<close>

definition files_getitem :: "request \<Rightarrow> string \<Rightarrow> file_storage comp" where
  "files_getitem req k =
     (case request_files req k of
        None \<Rightarrow> raise (BadRequestKeyError k)
      | Some f \<Rightarrow> return f)"

text \<open>\<^verbatim>\<open>upload\<close> (lines 214-241)\<close>

definition upload :: "env \<Rightarrow> datetime \<Rightarrow> user \<Rightarrow> request \<Rightarrow> response comp" where
  "upload env now current_user req =
     (if \<not> is_superuser current_user
      then bind (flash ''Only superusers can upload videos'') (\<lambda>_. return (Redirect ''home''))
      else if http_method req = ''POST''
      then try_except_class is_VideoUploadError
             (bind (files_getitem req ''video'') (\<lambda>video.
              let title_opt = form req ''title'' in
              bind (save_video env now (Some video) title_opt) (\<lambda>(fname, tname).
              bind (add_video title_opt fname tname now) (\<lambda>_.
              bind (flash ''Video uploaded successfully!'') (\<lambda>_.
              return (Redirect ''home''))))))
             (\<lambda>e. bind (flash (str_exn e)) (\<lambda>_. return (Redirect (url req))))
      else return (Render ''upload.html''))"

text \<open>
  \<^verbatim>\<open>delete_video\<close> (lines 243-266). \<^verbatim>\<open>os.path.join\<close> raises \<^verbatim>\<open>TypeError\<close> on a
  thumbnail filename that is \<^verbatim>\<open>None\<close>.
\<close>

definition delete_video :: "env \<Rightarrow> user \<Rightarrow> nat \<Rightarrow> response comp" where
  "delete_video env current_user vid =
     (if \<not> is_superuser current_user
      then bind (flash ''Only superusers can delete videos'') (\<lambda>_. return (Redirect ''home''))
      else bind
             (try_except
                (bind (get_or_404 vid) (\<lambda>v.
                 let video_path = path_join UPLOAD_FOLDER (video_filename v) in
                 bind (case thumbnail_filename v of
                         None \<Rightarrow> raise (TypeError
                           ''expected str, bytes or os.PathLike object, not NoneType'')
                       | Some tname \<Rightarrow> return (path_join THUMBNAIL_FOLDER tname)) (\<lambda>thumbnail_path.
                 bind (path_exists video_path) (\<lambda>found.
                 bind (if found then os_remove env video_path else return ()) (\<lambda>_.
                 bind (path_exists thumbnail_path) (\<lambda>found.
                 bind (if found then os_remove env thumbnail_path else return ()) (\<lambda>_.
                 bind (delete_video_record v) (\<lambda>_.
                 flash ''Video deleted successfully!''))))))))
                (\<lambda>e. flash (''Error deleting video: '' @ str_exn e)))
             (\<lambda>_. return (Redirect ''home'')))"

section \<open>The calls made by a run\<close>

text \<open>What a run from world \<open>w\<close> to world \<open>w'\<close> has added to the list of calls.\<close>

definition trace_of :: "world \<Rightarrow> world \<Rightarrow> call list" where
  "trace_of w w' = drop (length (calls w)) (calls w')"

section \<open>Concrete environments and worlds\<close>

text \<open>
  Inputs on which the theorems below are instantiated: a stand-in for the password hashing,
  whose comparison, like the one of \<^verbatim>\<open>werkzeug\<close>, answers False on a hash with fewer than
  two \<^verbatim>\<open>$\<close> and otherwise encodes the password, which a \<^verbatim>\<open>None\<close> does not allow;
  an environment in which both decoders open the file and then raise, one in which they work,
  and one in which, besides, no path can be removed; a clock reading, two uploads and a request;
  the superuser of the start-up code (lines 311-318); and three worlds.
\<close>

definition sample_hash :: "string \<Rightarrow> string" where
  "sample_hash p = ''pbkdf2:sha256$salt$'' @ rev p"

definition no_encode :: string where
  "no_encode =
     [CHR 0x27] @ ''NoneType'' @ [CHR 0x27] @ '' object has no attribute '' @
     [CHR 0x27] @ ''encode'' @ [CHR 0x27]"

definition sample_check :: "string \<Rightarrow> string option \<Rightarrow> exn + bool" where
  "sample_check pwhash password =
     (if count_list pwhash CHR ''$'' < 2 then Inr False
      else case password of
             None \<Rightarrow> Inl (AttributeError no_encode)
           | Some p \<Rightarrow> Inr (pwhash = sample_hash p))"

definition failing_env :: env where
  "failing_env =
     \<lparr>clip_open = (\<lambda>p fs. Inr (1 / 2)),
      clip_frame = (\<lambda>p fs t. Inl (LibraryError ''MoviePy error: failed to read the frame'')),
      reader_open = (\<lambda>p fs. Inr ()),
      reader_frame = (\<lambda>p fs i. Inl (IndexError ''Reached end of video'')),
      write_error = (\<lambda>p. None),
      remove_error = (\<lambda>p. None),
      generate_password_hash = sample_hash,
      check_password_hash = sample_check\<rparr>"

definition working_env :: env where
  "working_env =
     \<lparr>clip_open = (\<lambda>p fs. Inr (25 / 2)),
      clip_frame = (\<lambda>p fs t. Inr ''frame at one second''),
      reader_open = (\<lambda>p fs. Inr ()),
      reader_frame = (\<lambda>p fs i. Inr ''first frame''),
      write_error = (\<lambda>p. None),
      remove_error = (\<lambda>p. None),
      generate_password_hash = sample_hash,
      check_password_hash = sample_check\<rparr>"

definition locked_env :: env where
  "locked_env = failing_env\<lparr>remove_error := (\<lambda>p. Some (OSError ''Permission denied''))\<rparr>"

definition sample_time :: datetime where
  "sample_time = \<lparr>year = 2024, month = 1, day = 2, hour = 3, minute = 4, second = 5\<rparr>"

definition cat_file :: file_storage where
  "cat_file = \<lparr>filename = ''cat.mp4'', stream = ''moving pictures of a cat''\<rparr>"

definition notes_file :: file_storage where
  "notes_file = \<lparr>filename = ''notes.txt'', stream = ''plain text''\<rparr>"

definition piyu :: user where
  "piyu = \<lparr>user_id = 1, username = ''piyu'', password_hash = sample_hash ''piyu'',
            is_superuser = True\<rparr>"

definition cat_request :: request where
  "cat_request =
     \<lparr>http_method = ''POST'', url = ''/upload'',
      request_files = [''video'' \<mapsto> cat_file],
      form = [''title'' \<mapsto> ''Cat Video'']\<rparr>"

definition cat_video :: video where
  "cat_video =
     \<lparr>video_id = 1, title = ''Cat Video'',
      video_filename = ''20240102_030405_cat.mp4'',
      thumbnail_filename = Some ''thumb_20240102_030405_cat.jpg'',
      upload_date = sample_time\<rparr>"

definition empty_world :: world where
  "empty_world = \<lparr>files = Map.empty, users = [], videos = [], flashes = [], calls = []\<rparr>"

definition piyu_world :: world where
  "piyu_world =
     \<lparr>files = Map.empty,
      users = [piyu], videos = [], flashes = [], calls = []\<rparr>"

definition cat_world :: world where
  "cat_world =
     \<lparr>files = [''static/uploads/20240102_030405_cat.mp4'' \<mapsto> ''moving pictures of a cat'',
               ''static/thumbnails/thumb_20240102_030405_cat.jpg'' \<mapsto> ''frame at one second''],
      users = [piyu], videos = [cat_video], flashes = [], calls = []\<rparr>"

section \<open>Basic facts\<close>

lemma bind_return [simp]: "bind (return v) f = f v"
  by (simp add: bind_def return_def)

lemma bind_raise [simp]: "bind (raise e) f = raise e"
  by (simp add: bind_def raise_def)

lemma try_except_raise [simp]: "try_except (raise e) h = h e"
  by (simp add: try_except_def raise_def)

lemma try_except_return [simp]: "try_except (return v) h = return v"
  by (simp add: try_except_def return_def)

lemma bind_lift_Inr [simp]: "bind (lift (Inr v)) f = f v"
  by (simp add: bind_def lift_def)

lemmas eval_defs =
  upload_def delete_video_def save_video_def save_video_validate_def save_video_except_def
  generate_thumbnail_def thumbnail_with_moviepy_def thumbnail_with_imageio_def
  is_allowed_file_def rsplit1_def getitem_def lower_def lower_char_def upper_letters_def
  lower_letters_def ALLOWED_EXTENSIONS_def UPLOAD_FOLDER_def THUMBNAIL_FOLDER_def path_join_def
  strftime_def pad2_def pad4_def digit_def
  VideoFileClip_def save_frame_def clip_close_def get_reader_def get_data_def imwrite_def
  reader_close_def file_save_def write_file_def path_exists_def os_remove_def log_def
  files_getitem_def add_video_def get_or_404_def delete_video_record_def flash_def next_id_def
  bind_def return_def raise_def try_except_def try_except_class_def lift_def is_VideoUploadError_def
  failing_env_def working_env_def locked_env_def piyu_def cat_request_def cat_video_def
  cat_world_def cat_file_def notes_file_def sample_time_def empty_world_def piyu_world_def
  sample_hash_def sample_check_def trace_of_def Let_def

subsection \<open>Splitting at the last separator\<close>

lemma rfind_None: "rfind c s = None \<longleftrightarrow> c \<notin> set s"
  by (induction s) (auto split: option.splits)

lemma rfind_Some:
  "rfind c s = Some i \<Longrightarrow> i < length s \<and> s ! i = c \<and> c \<notin> set (drop (Suc i) s)"
proof (induction s arbitrary: i)
  case Nil
  then show ?case by simp
next
  case (Cons x xs)
  then show ?case
    by (auto split: option.splits if_splits simp: rfind_None)
qed

lemma after_last_append:
  assumes "c \<notin> set b"
  shows "after_last c (a @ c # b) = b"
proof -
  have "takeWhile (\<lambda>x. x \<noteq> c) (rev b @ c # rev a) = rev b @ takeWhile (\<lambda>x. x \<noteq> c) (c # rev a)"
    by (rule takeWhile_append2) (use assms in auto)
  then show ?thesis by (simp add: after_last_def)
qed

lemma before_last_append:
  assumes "c \<notin> set b"
  shows "before_last c (a @ c # b) = a"
proof -
  have "dropWhile (\<lambda>x. x \<noteq> c) (rev b @ c # rev a) = dropWhile (\<lambda>x. x \<noteq> c) (c # rev a)"
    by (rule dropWhile_append2) (use assms in auto)
  then show ?thesis by (simp add: before_last_def)
qed

lemma split_at_last:
  assumes "i < length s" "s ! i = c" "c \<notin> set (drop (Suc i) s)"
  shows "after_last c s = drop (Suc i) s" "before_last c s = take i s"
proof -
  have s: "s = take i s @ c # drop (Suc i) s"
    using assms(1,2) id_take_nth_drop[of i s] by metis
  show "after_last c s = drop (Suc i) s"
    using after_last_append[OF assms(3), of "take i s"] s by simp
  show "before_last c s = take i s"
    using before_last_append[OF assms(3), of "take i s"] s by simp
qed

lemma rsplit1_present:
  "c \<in> set s \<Longrightarrow> rsplit1 c s = [before_last c s, after_last c s]"
  unfolding rsplit1_def
  using rfind_None[of c s] rfind_Some[of c s] split_at_last[of _ s c]
  by (auto split: option.splits)

lemma before_last_prefixed:
  assumes "CHR ''.'' \<notin> set ext"
  shows "before_last CHR ''.'' (pre @ base @ ''.'' @ ext) = pre @ base"
  using before_last_append[OF assms, of "pre @ base"] by simp

section \<open>The extension check\<close>

lemma is_allowed_file_eq:
  "is_allowed_file fname =
     Inr (CHR ''.'' \<in> set fname \<and> lower (after_last CHR ''.'' fname) \<in> ALLOWED_EXTENSIONS)"
  by (simp add: is_allowed_file_def rsplit1_present getitem_def)

lemma is_allowed_file_cases:
  "is_allowed_file fname = Inr True \<or> is_allowed_file fname = Inr False"
  using is_allowed_file_eq[of fname] by auto

text \<open>
  Claim C8. For every declared filename, the extension check accepts it if and only if the
  filename contains a dot and the lowercased substring after its last dot is one of mp4, avi,
  mov, wmv, flv, mkv. The check never raises: the index into the split is only evaluated
  when the dot is there.
\<close>

theorem is_allowed_file_iff:
  "is_allowed_file fname =
     Inr (CHR ''.'' \<in> set fname \<and> lower (after_last CHR ''.'' fname) \<in> ALLOWED_EXTENSIONS)"
  by (simp add: is_allowed_file_def rsplit1_present getitem_def)

section \<open>Accounts\<close>

text \<open>
  Claim C5. For every username and every password shorter than 8 characters,
  \<open>create_user\<close> fails with \<open>AuthenticationError\<close> and leaves the world as it was, so no
  user record is persisted; whether the username is taken plays no part.
\<close>

theorem create_user_short_password:
  assumes "length password < 8"
  shows "create_user env name password w =
           (Inl (AuthenticationError
              ''Failed to create user: Password must be at least 8 characters long''), w)"
  using assms by (simp add: create_user_def rollback_def raise_def return_def bind_def try_except_def)

theorem create_user_short_password_witness:
  "length ''piyu'' < 8 \<and>
   create_user failing_env ''piyu'' ''piyu'' empty_world =
     (Inl (AuthenticationError
        ''Failed to create user: Password must be at least 8 characters long''), empty_world)"
  using create_user_short_password [of "''piyu''" failing_env "''piyu''" empty_world] by simp

text \<open>
  What the code achieves: when the comparison returns False, the message is the one of a
  username that no record has.
\<close>

lemma authenticate_user_comparison_false:
  assumes "name1 \<notin> set (map username (users w1))"
    and "find (\<lambda>x. username x = name2) (users w2) = Some u"
    and "check_password_hash env (password_hash u) password2 = Inr False"
  shows "authenticate_user env name1 password1 w1 =
           (Inl (AuthenticationError ''Authentication failed: Invalid username or password''), w1)
       \<and> authenticate_user env name2 password2 w2 =
           (Inl (AuthenticationError ''Authentication failed: Invalid username or password''), w2)"
proof -
  have "find (\<lambda>x. username x = name1) (users w1) = None"
    using assms(1) by (auto simp: find_None_iff)
  then show ?thesis
    using assms(2,3)
    by (simp add: authenticate_user_def query_user_def bind_def try_except_def raise_def lift_def)
qed

text \<open>
  Claim C4, on the code. The message does distinguish the two causes when the comparison
  raises instead of returning False, as it does for a login without a password field: for a
  username that no record has the comparison is never evaluated and the message is the
  generic one, but for the username of a record the handler at line 121 puts the text of the
  comparison's exception into the message.
\<close>

theorem authenticate_user_comparison_raises:
  assumes "name1 \<notin> set (map username (users w1))"
    and "find (\<lambda>x. username x = name2) (users w2) = Some u"
    and "check_password_hash env (password_hash u) password2 = Inl e"
  shows "authenticate_user env name1 password1 w1 =
           (Inl (AuthenticationError ''Authentication failed: Invalid username or password''), w1)
       \<and> authenticate_user env name2 password2 w2 =
           (Inl (AuthenticationError (''Authentication failed: '' @ str_exn e)), w2)"
proof -
  have "find (\<lambda>x. username x = name1) (users w1) = None"
    using assms(1) by (auto simp: find_None_iff)
  then show ?thesis
    using assms(2,3)
    by (simp add: authenticate_user_def query_user_def bind_def try_except_def raise_def lift_def)
qed

theorem authenticate_user_comparison_raises_witness:
  "authenticate_user failing_env ''nobody'' None piyu_world =
     (Inl (AuthenticationError ''Authentication failed: Invalid username or password''), piyu_world)
   \<and> authenticate_user failing_env ''piyu'' None piyu_world =
     (Inl (AuthenticationError (''Authentication failed: '' @ no_encode)), piyu_world)
   \<and> ''Authentication failed: '' @ no_encode
        \<noteq> ''Authentication failed: Invalid username or password''"
proof -
  have a: "''nobody'' \<notin> set (map username (users piyu_world))"
    by (simp add: piyu_world_def piyu_def)
  have b: "find (\<lambda>x. username x = ''piyu'') (users piyu_world) = Some piyu"
    by (simp add: piyu_world_def piyu_def)
  have c: "check_password_hash failing_env (password_hash piyu) None =
             Inl (AttributeError no_encode)"
    by (simp add: piyu_def failing_env_def sample_hash_def sample_check_def)
  have d: "''Authentication failed: '' @ no_encode
             \<noteq> ''Authentication failed: Invalid username or password''"
    by (simp add: no_encode_def)
  show ?thesis
    using authenticate_user_comparison_raises [OF a b c, of None] d by simp
qed

subsection \<open>Creating an account twice\<close>

lemma find_username_None:
  "find (\<lambda>x. username x = name) us = None \<longleftrightarrow> name \<notin> set (map username us)"
  by (auto simp: find_None_iff)

lemma create_user_taken:
  assumes "8 \<le> length password" "name \<in> set (map username (users w))"
  shows "create_user env name password w =
           (Inl (AuthenticationError ''Failed to create user: Username already exists''), w)"
proof -
  obtain u where "find (\<lambda>x. username x = name) (users w) = Some u"
    using assms(2) find_username_None[of name "users w"] by (cases "find (\<lambda>x. username x = name) (users w)") auto
  then show ?thesis
    using assms(1)
    by (simp add: create_user_def query_user_def bind_def try_except_def raise_def
        rollback_def return_def)
qed

lemma create_user_fresh:
  assumes "8 \<le> length password" "name \<notin> set (map username (users w))"
  shows "\<exists>u. username u = name \<and>
           create_user env name password w = (Inr u, w\<lparr>users := users w @ [u]\<rparr>)"
proof -
  have "find (\<lambda>x. username x = name) (users w) = None"
    using assms(2) find_username_None by blast
  then show ?thesis
    using assms
    by (simp add: create_user_def query_user_def bind_def try_except_def add_user_def Let_def)
qed

lemma count_username_distinct:
  "distinct (map username us) \<Longrightarrow> name \<in> set (map username us) \<Longrightarrow>
   length (filter (\<lambda>x. username x = name) us) = 1"
proof (induction us)
  case Nil
  then show ?case by simp
next
  case (Cons a us)
  show ?case
  proof (cases "username a = name")
    case True
    then have "filter (\<lambda>x. username x = name) us = []"
      using Cons.prems(1) by (force simp: filter_empty_conv image_iff)
    with True show ?thesis by simp
  next
    case False
    then show ?thesis using Cons by auto
  qed
qed

text \<open>
  Claim C6. In a store whose usernames are unique, for every username and every two
  passwords of at least 8 characters, the second of two \<open>create_user\<close> calls with the same
  username fails with \<open>AuthenticationError\<close>, and afterwards exactly one user record has
  that username.
\<close>

theorem create_user_twice:
  assumes uniq: "distinct (map username (users w))"
    and p1: "8 \<le> length password1" and p2: "8 \<le> length password2"
    and first: "create_user env name password1 w = (r1, w1)"
    and second: "create_user env name password2 w1 = (r2, w2)"
  shows "r2 = Inl (AuthenticationError ''Failed to create user: Username already exists'')
       \<and> length (filter (\<lambda>x. username x = name) (users w2)) = 1"
proof (cases "name \<in> set (map username (users w))")
  case True
  then have "w1 = w" using create_user_taken[OF p1 True, of env] first by simp
  then have "r2 = Inl (AuthenticationError ''Failed to create user: Username already exists'')" "w2 = w"
    using create_user_taken[OF p2 True, of env] second by simp_all
  then show ?thesis using count_username_distinct[OF uniq True] by simp
next
  case False
  then obtain u where u: "username u = name" "w1 = w\<lparr>users := users w @ [u]\<rparr>"
    using create_user_fresh[OF p1 False, of env] first by auto
  then have taken: "name \<in> set (map username (users w1))" by simp
  have d: "distinct (map username (users w1))" using u uniq False by simp
  have "r2 = Inl (AuthenticationError ''Failed to create user: Username already exists'')" "w2 = w1"
    using create_user_taken[OF p2 taken, of env] second by simp_all
  then show ?thesis using count_username_distinct[OF d taken] by simp
qed

theorem create_user_twice_witness:
  "distinct (map username (users piyu_world)) \<and> 8 \<le> length ''password1''
   \<and> 8 \<le> length ''password2''
   \<and> fst (create_user failing_env ''maria'' ''password2''
          (snd (create_user failing_env ''maria'' ''password1'' piyu_world)))
     = Inl (AuthenticationError ''Failed to create user: Username already exists'')
   \<and> length (filter (\<lambda>x. username x = ''maria'')
        (users (snd (create_user failing_env ''maria'' ''password2''
          (snd (create_user failing_env ''maria'' ''password1'' piyu_world)))))) = 1"
proof -
  have d: "distinct (map username (users piyu_world))" by (simp add: piyu_world_def)
  have p1: "8 \<le> length ''password1''" and p2: "8 \<le> length ''password2''" by simp_all
  show ?thesis
    using create_user_twice [where env = failing_env and name = "''maria''",
        OF d p1 p2 prod.collapse[symmetric] prod.collapse[symmetric]] d
    by simp
qed

section \<open>Thumbnail generation\<close>




lemma moviepy_True:
  "thumbnail_with_moviepy env vp tp w = (Inr b, w') \<Longrightarrow> b"
  by (auto simp: thumbnail_with_moviepy_def bind_def return_def Let_def split: prod.splits sum.splits)

lemma imageio_True:
  "thumbnail_with_imageio env vp tp w = (Inr b, w') \<Longrightarrow> b"
  by (auto simp: thumbnail_with_imageio_def bind_def return_def split: prod.splits sum.splits)

lemma generate_thumbnail_True:
  "generate_thumbnail env vp tp w = (Inr b, w') \<Longrightarrow> b"
  by (auto simp: generate_thumbnail_def try_except_def raise_def split: prod.splits sum.splits
      dest: moviepy_True imageio_True)

lemma generate_thumbnail_branch:
  "bind (generate_thumbnail env vp tp) (\<lambda>ok. if ok then on_true else on_false)
     = bind (generate_thumbnail env vp tp) (\<lambda>ok. on_true)"
proof
  fix w
  obtain r w' where g: "generate_thumbnail env vp tp w = (r, w')"
    by (cases "generate_thumbnail env vp tp w")
  have "r \<noteq> Inr False" using generate_thumbnail_True[of env vp tp w False w'] g by auto
  then show "bind (generate_thumbnail env vp tp) (\<lambda>ok. if ok then on_true else on_false) w
     = bind (generate_thumbnail env vp tp) (\<lambda>ok. on_true) w"
    using g by (cases r) (auto simp: bind_def)
qed

text \<open>
  Claim C10. \<open>generate_thumbnail\<close> never returns a falsy value: every run that does not
  raise returns True. Hence the branch of \<open>save_video\<close> taken on a falsy result is dead:
  whatever stands in it, the test on the result of \<open>generate_thumbnail\<close> behaves as its
  true branch alone.
\<close>

theorem generate_thumbnail_never_falsy:
  "fst (generate_thumbnail env vp tp w) \<noteq> Inr False
   \<and> bind (generate_thumbnail env vp tp) (\<lambda>ok. if ok then on_true else on_false) w
     = bind (generate_thumbnail env vp tp) (\<lambda>ok. on_true) w"
proof -
  obtain r w' where g: "generate_thumbnail env vp tp w = (r, w')" by (cases "generate_thumbnail env vp tp w")
  have "r \<noteq> Inr False" using generate_thumbnail_True[of env vp tp w False w'] g by auto
  then show ?thesis using g by (cases r) (auto simp: bind_def)
qed






section \<open>Saving an upload\<close>

lemma save_video_validate_ok:
  assumes "filename f \<noteq> []" "is_allowed_file (filename f) = Inr True"
  shows "save_video_validate (Some f) = return f"
  using assms by (simp add: save_video_validate_def lift_def bind_def return_def)

lemma save_video_rejected:
  assumes "video_file = None \<or> filename (the video_file) = []
           \<or> is_allowed_file (filename (the video_file)) = Inr False"
  shows "save_video env now video_file title_opt w = (Inl (UnboundLocalError ''video_path''), w)"
  using assms
  by (cases video_file)
     (auto simp: save_video_def save_video_validate_def save_video_except_def lift_def
        bind_def raise_def try_except_def)

lemma save_video_accepted:
  assumes "filename f \<noteq> []" "is_allowed_file (filename f) = Inr True"
  shows "save_video env now (Some f) title_opt w =
     try_except
       (bind (file_save env f (path_join UPLOAD_FOLDER (strftime now @ ''_'' @ filename f))) (\<lambda>_.
        bind (generate_thumbnail env (path_join UPLOAD_FOLDER (strftime now @ ''_'' @ filename f))
               (path_join THUMBNAIL_FOLDER
                  (''thumb_'' @ before_last CHR ''.'' (strftime now @ ''_'' @ filename f) @ ''.jpg''))) (\<lambda>ok.
        return (strftime now @ ''_'' @ filename f,
                ''thumb_'' @ before_last CHR ''.'' (strftime now @ ''_'' @ filename f) @ ''.jpg''))))
       (save_video_except env (Some (path_join UPLOAD_FOLDER (strftime now @ ''_'' @ filename f)))) w"
proof -
  have dot: "CHR ''.'' \<in> set (strftime now @ ''_'' @ filename f)"
    using assms(2) is_allowed_file_eq[of "filename f"] by auto
  have base: "getitem (rsplit1 CHR ''.'' (strftime now @ ''_'' @ filename f)) 0
                = Inr (before_last CHR ''.'' (strftime now @ ''_'' @ filename f))"
    using rsplit1_present[OF dot] by (simp add: getitem_def)
  show ?thesis
    unfolding save_video_def save_video_validate_ok[OF assms]
    by (simp add: Let_def base[simplified] generate_thumbnail_branch)
qed

lemma save_video_except_raises:
  "save_video_except env vp e w \<noteq> (Inr res, w')"
  by (cases vp)
     (auto simp: save_video_except_def raise_def bind_def path_exists_def os_remove_def log_def
        return_def split: option.splits)

lemma save_video_Inr_accepted:
  assumes "save_video env now (Some f) title_opt w = (Inr res, w')"
  shows "filename f \<noteq> [] \<and> is_allowed_file (filename f) = Inr True"
  using assms save_video_rejected[of "Some f" env now title_opt w] is_allowed_file_cases[of "filename f"]
  by auto

lemma try_bind_return_Inr:
  assumes "try_except (bind m (\<lambda>_. bind g (\<lambda>_. return v))) (save_video_except env vp) w = (Inr res, w')"
  shows "res = v"
proof -
  obtain r1 w1 where m: "m w = (r1, w1)" by (cases "m w")
  show ?thesis
  proof (cases r1)
    case (Inl e)
    then show ?thesis
      using assms m save_video_except_raises[of env vp e w1 res w']
      by (auto simp: try_except_def bind_def)
  next
    case (Inr u)
    obtain r2 w2 where g: "g w1 = (r2, w2)" by (cases "g w1")
    show ?thesis
    proof (cases r2)
      case (Inl e)
      then show ?thesis
        using assms m g Inr save_video_except_raises[of env vp e w2 res w']
        by (auto simp: try_except_def bind_def)
    next
      case (Inr b)
      then show ?thesis
        using assms m g \<open>r1 = Inr u\<close>
        by (auto simp: try_except_def bind_def return_def)
    qed
  qed
qed

text \<open>
  Claim C2, on the code. An upload with no file, with an empty declared filename or with an
  extension outside the allowed set writes nothing, but it does not fail with
  \<open>VideoUploadError\<close>: the handler of \<open>save_video\<close> reads \<open>video_path\<close> before
  line 66 has bound it, and the function raises \<open>UnboundLocalError\<close>.
\<close>

theorem save_video_rejection_unbound:
  assumes "video_file = None \<or> filename (the video_file) = []
           \<or> is_allowed_file (filename (the video_file)) = Inr False"
  shows "save_video env now video_file title_opt w = (Inl (UnboundLocalError ''video_path''), w)"
  using assms by (rule save_video_rejected)

theorem save_video_rejection_unbound_witness:
  "is_allowed_file (filename notes_file) = Inr False
   \<and> save_video working_env sample_time (Some notes_file) (Some ''Notes'') empty_world
       = (Inl (UnboundLocalError ''video_path''), empty_world)"
proof -
  have r: "is_allowed_file (filename notes_file) = Inr False"
    by (simp add: eval_defs)
  show ?thesis
    using save_video_rejection_unbound [of "Some notes_file" working_env sample_time "Some ''Notes''" empty_world] r
    by simp
qed

text \<open>
  Claim C9. For every successful \<open>save_video\<close> of a file declared as F at time T, the
  storage filename is the timestamp of T in the format YYYYMMDD_HHMMSS, an underscore, then F;
  the thumbnail filename is thumb_, the storage filename up to its last dot, then .jpg. So an
  F made of a base, a dot and an extension without dots gives thumb_T_base.jpg.
\<close>

theorem save_video_filenames:
  assumes run: "save_video env now (Some f) title_opt w = (Inr (fname, tname), w')"
  shows "fname = strftime now @ ''_'' @ filename f
       \<and> tname = ''thumb_'' @ before_last CHR ''.'' fname @ ''.jpg''
       \<and> (\<forall>base ext. filename f = base @ ''.'' @ ext \<and> CHR ''.'' \<notin> set ext \<longrightarrow>
             tname = ''thumb_'' @ strftime now @ ''_'' @ base @ ''.jpg'')"
proof -
  have ok: "filename f \<noteq> []" "is_allowed_file (filename f) = Inr True"
    using save_video_Inr_accepted[OF run] by simp_all
  have names: "(fname, tname) =
      (strftime now @ ''_'' @ filename f,
       ''thumb_'' @ before_last CHR ''.'' (strftime now @ ''_'' @ filename f) @ ''.jpg'')"
    using run unfolding save_video_accepted[OF ok] by (rule try_bind_return_Inr)
  then have a: "fname = strftime now @ ''_'' @ filename f"
    and b: "tname = ''thumb_'' @ before_last CHR ''.'' fname @ ''.jpg''" by simp_all
  have c: "tname = ''thumb_'' @ strftime now @ ''_'' @ base @ ''.jpg''"
    if "filename f = base @ ''.'' @ ext" "CHR ''.'' \<notin> set ext" for base ext
    using before_last_prefixed[OF that(2), of "strftime now @ ''_''" base] a b that(1) by simp
  show ?thesis using a b c by blast
qed

theorem save_video_filenames_witness:
  "save_video working_env sample_time (Some cat_file) (Some ''Cat Video'') empty_world =
     (Inr (''20240102_030405_cat.mp4'', ''thumb_20240102_030405_cat.jpg''),
      snd (save_video working_env sample_time (Some cat_file) (Some ''Cat Video'') empty_world))
   \<and> strftime sample_time = ''20240102_030405''
   \<and> ''20240102_030405_cat.mp4'' = strftime sample_time @ ''_'' @ filename cat_file
   \<and> ''thumb_20240102_030405_cat.jpg''
        = ''thumb_'' @ before_last CHR ''.'' ''20240102_030405_cat.mp4'' @ ''.jpg''"
proof -
  have run: "save_video working_env sample_time (Some cat_file) (Some ''Cat Video'') empty_world =
     (Inr (''20240102_030405_cat.mp4'', ''thumb_20240102_030405_cat.jpg''),
      snd (save_video working_env sample_time (Some cat_file) (Some ''Cat Video'') empty_world))"
    by (simp add: eval_defs)
  have t: "strftime sample_time = ''20240102_030405''"
    by (simp add: strftime_def pad2_def pad4_def digit_def sample_time_def)
  show ?thesis
    using save_video_filenames [OF run] run t by simp
qed

section \<open>Upload: a failed thumbnail\<close>









section \<open>Deleting a video\<close>

text \<open>
  Claim C3, as the code has it. When an administrator deletes a video whose record has a
  thumbnail filename, and no removal is refused, neither asset exists afterwards, each asset
  that existed has been removed by a call, the record is gone and the success message is
  flashed. An asset that is missing blocks nothing.
\<close>

theorem delete_video_removes_assets_and_record:
  assumes su: "is_superuser current_user"
    and found: "find (\<lambda>x. video_id x = vid) (videos w) = Some v"
    and thumb: "thumbnail_filename v = Some tname"
    and vp: "video_path = path_join UPLOAD_FOLDER (video_filename v)"
    and tp: "thumbnail_path = path_join THUMBNAIL_FOLDER tname"
    and rv: "remove_error env video_path = None"
    and rt: "remove_error env thumbnail_path = None"
    and res: "delete_video env current_user vid w = (r, w')"
  shows "r = Inr (Redirect ''home'')
       \<and> video_path \<notin> dom (files w') \<and> thumbnail_path \<notin> dom (files w')
       \<and> (video_path \<in> dom (files w) \<longrightarrow> Call_remove video_path \<in> set (calls w'))
       \<and> (thumbnail_path \<in> dom (files w) \<longrightarrow> Call_remove thumbnail_path \<in> set (calls w'))
       \<and> vid \<notin> set (map video_id (videos w'))
       \<and> flashes w' = flashes w @ [''Video deleted successfully!'']"
proof -
  have vid: "video_id v = vid" using found by (auto simp: find_Some_iff)
  have rv': "remove_error env (path_join UPLOAD_FOLDER (video_filename v)) = None"
    using rv vp by simp
  have rt': "remove_error env (path_join THUMBNAIL_FOLDER tname) = None"
    using rt tp by simp
  show ?thesis
    using res su found thumb rv' rt' vid
    unfolding delete_video_def vp tp Let_def
    by (auto simp: get_or_404_def bind_def try_except_def return_def raise_def path_exists_def
        os_remove_def log_def delete_video_record_def flash_def
        split: if_splits)
qed

theorem delete_video_removes_assets_and_record_witness:
  "fst (delete_video working_env piyu 1 cat_world) = Inr (Redirect ''home'')
   \<and> files (snd (delete_video working_env piyu 1 cat_world)) = Map.empty
   \<and> videos (snd (delete_video working_env piyu 1 cat_world)) = []
   \<and> flashes (snd (delete_video working_env piyu 1 cat_world)) = [''Video deleted successfully!'']"
proof -
  let ?vp = "''static/uploads/20240102_030405_cat.mp4''"
  let ?tp = "''static/thumbnails/thumb_20240102_030405_cat.jpg''"
  have su: "is_superuser piyu" by (simp add: piyu_def)
  have found: "find (\<lambda>x. video_id x = 1) (videos cat_world) = Some cat_video"
    by (simp add: cat_world_def cat_video_def)
  have thumb: "thumbnail_filename cat_video = Some ''thumb_20240102_030405_cat.jpg''"
    by (simp add: cat_video_def)
  have vp: "?vp = path_join UPLOAD_FOLDER (video_filename cat_video)" by (simp add: eval_defs)
  have tp: "?tp = path_join THUMBNAIL_FOLDER ''thumb_20240102_030405_cat.jpg''"
    by (simp add: eval_defs)
  have rv: "remove_error working_env ?vp = None" and rt: "remove_error working_env ?tp = None"
    by (simp_all add: working_env_def)
  show ?thesis
    using delete_video_removes_assets_and_record [OF su found thumb vp tp rv rt prod.collapse[symmetric]]
    by (simp add: eval_defs)
qed

text \<open>
  Claim C3 as stated fails when the removal of the video asset is refused: the handler of
  \<open>delete_video\<close> flashes the error, the record stays, and the removal of the thumbnail is
  not attempted.
\<close>

theorem delete_video_blocked_counterexample:
  "videos (snd (delete_video locked_env piyu 1 cat_world)) = [cat_video]
   \<and> calls (snd (delete_video locked_env piyu 1 cat_world))
       = [Call_remove ''static/uploads/20240102_030405_cat.mp4'']
   \<and> files (snd (delete_video locked_env piyu 1 cat_world)) = files cat_world
   \<and> flashes (snd (delete_video locked_env piyu 1 cat_world))
       = [''Error deleting video: Permission denied'']"
  by (simp add: eval_defs)

end
